theory Spec2Isabelle
  imports Main "HOL-Library.Sublist" "HOL-Library.Signed_Division"
begin

section \<open>Go values used by the program\<close>

text \<open>
  The source holds two revisions of the program; the model follows the later one, which
  adds the status message, the loading flag and the actions on the selected container.

  A Go \<open>string\<close> is a sequence of bytes and \<open>len\<close> counts bytes, so a string is a
  \<^typ>\<open>string\<close> (a list of 8-bit characters). A Go \<open>int\<close> is modelled as \<^typ>\<open>int\<close>:
  the program only adds and subtracts small constants to terminal dimensions and string
  lengths, and Go's division, which truncates toward zero, is \<open>sdiv\<close>.

  A run-time panic is a value: every function of the program that can panic returns
  \<open>panic + 'a\<close>, with \<open>Inl\<close> the panic.
\<close>

datatype panic = SliceBoundsOutOfRange | IndexOutOfRange

definition bindP :: "panic + 'a \<Rightarrow> ('a \<Rightarrow> panic + 'b) \<Rightarrow> panic + 'b" where
  "bindP x f = (case x of Inl e \<Rightarrow> Inl e | Inr v \<Rightarrow> f v)"

text \<open>The slice expression \<open>s[:hi]\<close> on a string: it panics unless \<open>0 \<le> hi \<le> len(s)\<close>.\<close>

definition slice_to :: "string \<Rightarrow> int \<Rightarrow> panic + string" where
  "slice_to s hi =
     (if hi < 0 \<or> int (length s) < hi then Inl SliceBoundsOutOfRange
      else Inr (take (nat hi) s))"

subsection \<open>Package \<open>strings\<close>\<close>

text \<open>
  \<open>strings.ToLower\<close>, \<open>strings.ToUpper\<close> and \<open>strings.TrimSpace\<close> of Go's standard
  library work on Unicode text: the case mappings follow the Unicode tables and
  \<open>TrimSpace\<close> removes Unicode white space. They are not code of the program, and they
  are parameters of the model: every function that calls one of them takes the record
  \<open>S\<close> of the three, and every theorem below holds for whatever functions they are.
\<close>

record stdlib =
  ToLower :: "string \<Rightarrow> string"
  ToUpper :: "string \<Rightarrow> string"
  TrimSpace :: "string \<Rightarrow> string"

text \<open>
  The other functions of the package that the program calls compare and cut bytes, and
  are defined here.
\<close>

definition TrimPrefix :: "string \<Rightarrow> string \<Rightarrow> string" where
  "TrimPrefix s p = (if prefix p s then drop (length p) s else s)"

text \<open>\<open>strings.Contains(s, substr)\<close>: \<open>substr\<close> occurs in \<open>s\<close> at some position.\<close>

fun Contains :: "string \<Rightarrow> string \<Rightarrow> bool" where
  "Contains [] substr = (substr = [])"
| "Contains (c # s) substr = (prefix substr (c # s) \<or> Contains s substr)"

text \<open>
  \<open>strings.ReplaceAll(s, old, new)\<close> for a non-empty \<open>old\<close>: one pass from the left
  over the non-overlapping occurrences. (With an empty \<open>old\<close> Go inserts \<open>new\<close> between
  the characters; the program never does that, and the model then returns \<open>s\<close>.)
\<close>

fun ReplaceAll :: "string \<Rightarrow> string \<Rightarrow> string \<Rightarrow> string" where
  "ReplaceAll [] old new = []"
| "ReplaceAll (c # s) old new =
     (if old \<noteq> [] \<and> prefix old (c # s)
      then new @ ReplaceAll (drop (length old) (c # s)) old new
      else c # ReplaceAll s old new)"

text \<open>\<open>strings.Split(s, sep)\<close> for a separator of one byte; the empty string gives \<open>[""]\<close>.\<close>

fun Split :: "string \<Rightarrow> char \<Rightarrow> string list" where
  "Split [] sep = [[]]"
| "Split (c # s) sep =
     (if c = sep then [] # Split s sep
      else (case Split s sep of [] \<Rightarrow> [[c]] | l # ls \<Rightarrow> (c # l) # ls))"

section \<open>Records and cells\<close>

record Container =
  ID :: string
  Image_c :: string
  Command :: string
  Created :: string
  Status :: string
  Ports :: string
  Names :: string
  State :: string

text \<open>
  The three colour styles of the status column. \<open>style.Render(s)\<close> of the styling
  library returns \<open>s\<close> wrapped in the terminal's escape codes for the style; a table
  cell keeps the style and the text apart.
\<close>

datatype style = runningStyle | stoppedStyle | pausedStyle

datatype cell = Plain string | Render style string

section \<open>The widgets of the terminal library\<close>

text \<open>
  The table and the text input are widgets of an external library. The state of a widget
  is the part the program reads back: the table's columns, rows, cursor and height, and
  the input's text and focus. Their setters store a field; the table's scrolling viewport,
  and any adjustment of the cursor that a setter makes, are not modelled.
\<close>

record Column =
  Title :: string
  Width :: int

record table_Model =
  t_cols :: "Column list"
  t_rows :: "cell list list"
  t_cursor :: int
  t_height :: int
  t_focus :: bool

definition Columns :: "table_Model \<Rightarrow> Column list" where
  "Columns t = t_cols t"

definition Cursor :: "table_Model \<Rightarrow> int" where
  "Cursor t = t_cursor t"

definition SetColumns :: "table_Model \<Rightarrow> Column list \<Rightarrow> table_Model" where
  "SetColumns t c = t\<lparr>t_cols := c\<rparr>"

definition SetRows :: "table_Model \<Rightarrow> cell list list \<Rightarrow> table_Model" where
  "SetRows t r = t\<lparr>t_rows := r\<rparr>"

definition SetHeight :: "table_Model \<Rightarrow> int \<Rightarrow> table_Model" where
  "SetHeight t h = t\<lparr>t_height := h\<rparr>"

record textinput_Model =
  ti_text :: string
  ti_focus :: bool
  Placeholder :: string
  CharLimit :: int

definition Value :: "textinput_Model \<Rightarrow> string" where
  "Value f = ti_text f"

definition Blur :: "textinput_Model \<Rightarrow> textinput_Model" where
  "Blur f = f\<lparr>ti_focus := False\<rparr>"

text \<open>
  A command is what an update hands to the run time to execute later. The commands of
  the program are data here: \<open>LoadCmd\<close> is \<open>loadContainers\<close>, \<open>StartCmd id\<close> is
  \<open>startContainer(id)\<close>, and so for \<open>StopCmd\<close> and \<open>DeleteCmd\<close>; what each returns when
  it runs is a function further down. \<open>Tick d c\<close> runs \<open>c\<close> after \<open>d\<close> seconds, \<open>Batch\<close>
  runs several commands, \<open>Blink\<close> is the text input's cursor blink and \<open>InputCmd\<close> any
  other command of the text input.
\<close>

datatype cmd =
    Quit
  | Blink
  | LoadCmd
  | StartCmd string
  | StopCmd string
  | DeleteCmd string
  | Tick nat cmd
  | Batch "cmd list"
  | InputCmd string

definition Focus :: "textinput_Model \<Rightarrow> textinput_Model \<times> cmd option" where
  "Focus f = (f\<lparr>ti_focus := True\<rparr>, Some Blink)"

text \<open>
  How the two widgets react to a key is the library's business and a parameter of the
  model: the table answers a key by moving its cursor (it returns no command), the text
  input by editing its state, with an optional command.
\<close>

record widgets =
  table_Update :: "string \<Rightarrow> table_Model \<Rightarrow> int"
  textinput_Update :: "string \<Rightarrow> textinput_Model \<Rightarrow> textinput_Model \<times> cmd option"

section \<open>The application state\<close>

record model =
  table :: table_Model
  containers :: "Container list"
  filter_f :: textinput_Model
  filtering :: bool
  err :: "string option"
  width :: int
  height :: int
  statusMsg :: string
  loading :: bool

datatype msg =
    WindowSizeMsg int int
  | KeyMsg string
  | containersLoaded "Container list"
  | actionResult bool string
  | errMsg string
  | otherMsg

subsection \<open>Running the external commands\<close>

text \<open>
  \<open>loadContainers\<close> gets what \<open>docker ps -a --format json\<close> returned: \<open>Inl\<close> the error of
  a failed run, \<open>Inr\<close> its output. The JSON decoder of the standard library is the
  parameter \<open>decode\<close>: \<open>None\<close> when \<open>json.Unmarshal\<close> returns an error for the line.
\<close>

fun decodeLines :: "(string \<Rightarrow> Container option) \<Rightarrow> string list \<Rightarrow> Container list" where
  "decodeLines decode [] = []"
| "decodeLines decode (line # lines) =
     (if line = [] then decodeLines decode lines
      else (case decode line of
              None \<Rightarrow> decodeLines decode lines
            | Some container \<Rightarrow> container # decodeLines decode lines))"

definition loadContainers :: "stdlib \<Rightarrow> (string \<Rightarrow> Container option) \<Rightarrow> string + string \<Rightarrow> msg" where
  "loadContainers S decode output =
     (case output of
        Inl e \<Rightarrow> errMsg e
      | Inr out \<Rightarrow> containersLoaded (decodeLines decode (Split (TrimSpace S out) (CHR 0x0A))))"

text \<open>
  The three actions get the outcome of their \<open>docker\<close> run: \<open>Some e\<close> is the error of a
  failed run. \<open>deleteContainer\<close> runs \<open>docker stop\<close> first and ignores its outcome.
\<close>

definition startContainer :: "string \<Rightarrow> string option \<Rightarrow> panic + msg" where
  "startContainer containerID run =
     (case run of
        Some e \<Rightarrow> Inr (actionResult False (''Failed to start container: '' @ e))
      | None \<Rightarrow> bindP (slice_to containerID 12)
          (\<lambda>id12. Inr (actionResult True (''Container '' @ id12 @ '' started successfully''))))"

definition stopContainer :: "string \<Rightarrow> string option \<Rightarrow> panic + msg" where
  "stopContainer containerID run =
     (case run of
        Some e \<Rightarrow> Inr (actionResult False (''Failed to stop container: '' @ e))
      | None \<Rightarrow> bindP (slice_to containerID 12)
          (\<lambda>id12. Inr (actionResult True (''Container '' @ id12 @ '' stopped successfully''))))"

definition deleteContainer :: "string \<Rightarrow> string option \<Rightarrow> string option \<Rightarrow> panic + msg" where
  "deleteContainer containerID stopRun run =
     (case run of
        Some e \<Rightarrow> Inr (actionResult False (''Failed to delete container: '' @ e))
      | None \<Rightarrow> bindP (slice_to containerID 12)
          (\<lambda>id12. Inr (actionResult True (''Container '' @ id12 @ '' deleted successfully''))))"

subsection \<open>Filter and projection\<close>

definition truncate :: "string \<Rightarrow> int \<Rightarrow> panic + string" where
  "truncate s mx =
     (if int (length s) \<le> mx then Inr s
      else bindP (slice_to s (mx - 3)) (\<lambda>p. Inr (p @ ''...'')))"

definition formatStatus :: "stdlib \<Rightarrow> string \<Rightarrow> cell" where
  "formatStatus S state =
     (if state = ''running'' then Render runningStyle ''RUNNING''
      else if state = ''exited'' then Render stoppedStyle ''STOPPED''
      else if state = ''paused'' then Render pausedStyle ''PAUSED''
      else if state = ''restarting'' then Render pausedStyle ''RESTART''
      else if state = ''removing'' then Render stoppedStyle ''REMOVING''
      else if state = ''dead'' then Render stoppedStyle ''DEAD''
      else if state = ''created'' then Render pausedStyle ''CREATED''
      else Plain (ToUpper S state))"

text \<open>The placeholder of an empty cell: the em dash, three bytes in UTF-8.\<close>

definition dash :: string where
  "dash = [CHR 0xE2, CHR 0x80, CHR 0x94]"

definition formatPorts :: "string \<Rightarrow> panic + string" where
  "formatPorts ports =
     (if ports = [] then Inr dash
      else truncate (ReplaceAll ports ''0.0.0.0:'' []) 25)"

definition containerToRow :: "stdlib \<Rightarrow> model \<Rightarrow> Container \<Rightarrow> panic + cell list" where
  "containerToRow S m c =
     (let name = TrimPrefix (Names c) ''/'';
          cols = Columns (table m)
      in if length cols < 5 then
           bindP (truncate (ID c) 14) (\<lambda>c0.
           bindP (truncate name 25) (\<lambda>c1.
           bindP (truncate (Image_c c) 30) (\<lambda>c2.
           bindP (bindP (formatPorts (Ports c)) (\<lambda>p. truncate p 25)) (\<lambda>c4.
           Inr [Plain c0, Plain c1, Plain c2, formatStatus S (State c), Plain c4]))))
         else
           bindP (truncate (ID c) (Width (cols ! 0))) (\<lambda>c0.
           bindP (truncate name (Width (cols ! 1))) (\<lambda>c1.
           bindP (truncate (Image_c c) (Width (cols ! 2))) (\<lambda>c2.
           bindP (bindP (formatPorts (Ports c)) (\<lambda>p. truncate p (Width (cols ! 4)))) (\<lambda>c4.
           Inr [Plain c0, Plain c1, Plain c2, formatStatus S (State c), Plain c4])))))"

text \<open>The condition of the filter loop; \<open>f\<close> is the filter text, already lower-cased.\<close>

definition matchesFilter :: "stdlib \<Rightarrow> string \<Rightarrow> Container \<Rightarrow> bool" where
  "matchesFilter S f container =
     (let name = ToLower S (TrimPrefix (Names container) ''/'');
          ports = ToLower S (Ports container)
      in Contains name f \<or>
         Contains (ToLower S (Image_c container)) f \<or>
         Contains (ToLower S (State container)) f \<or>
         Contains (ToLower S (ID container)) f \<or>
         Contains ports f)"

fun filterLoop :: "stdlib \<Rightarrow> string \<Rightarrow> Container list \<Rightarrow> Container list" where
  "filterLoop S f [] = []"
| "filterLoop S f (container # rest) =
     (if matchesFilter S f container then container # filterLoop S f rest
      else filterLoop S f rest)"

definition filterContainers :: "stdlib \<Rightarrow> Container list \<Rightarrow> string \<Rightarrow> Container list" where
  "filterContainers S cs f = (if f = [] then cs else filterLoop S (ToLower S f) cs)"

definition getSelectedContainer :: "stdlib \<Rightarrow> model \<Rightarrow> panic + Container option" where
  "getSelectedContainer S m =
     (if length (containers m) = 0 then Inr None
      else let filtered = filterContainers S (containers m) (Value (filter_f m))
        in if length filtered = 0 then Inr None
           else let cursor = Cursor (table m)
             in if int (length filtered) \<le> cursor then Inr None
                else if cursor < 0 then Inl IndexOutOfRange
                else Inr (Some (filtered ! nat cursor)))"

fun rowsLoop :: "stdlib \<Rightarrow> model \<Rightarrow> Container list \<Rightarrow> panic + cell list list" where
  "rowsLoop S m [] = Inr []"
| "rowsLoop S m (container # rest) =
     bindP (containerToRow S m container) (\<lambda>r.
     bindP (rowsLoop S m rest) (\<lambda>rs. Inr (r # rs)))"

definition updateTable :: "stdlib \<Rightarrow> model \<Rightarrow> panic + model" where
  "updateTable S m =
     bindP (rowsLoop S m (filterContainers S (containers m) (Value (filter_f m))))
       (\<lambda>rows. Inr (m\<lparr>table := SetRows (table m) rows\<rparr>))"

subsection \<open>Layout\<close>

definition max_int :: "int \<Rightarrow> int \<Rightarrow> int" where
  "max_int a b = (if a > b then a else b)"

definition updateTableSize :: "stdlib \<Rightarrow> model \<Rightarrow> panic + model" where
  "updateTableSize S m0 =
     (let m = (if width m0 < 80 then m0\<lparr>width := 80\<rparr> else m0);
          idWidth = 14;
          statusWidth = 16;
          fixedWidth = idWidth + statusWidth + 10;
          remainingWidth = width m - fixedWidth;
          nameWidth = max_int 20 (remainingWidth sdiv 3);
          imageWidth = max_int 25 (remainingWidth sdiv 3);
          portsWidth = max_int 20 (remainingWidth - nameWidth - imageWidth);
          columns = [\<lparr>Title = ''ID'', Width = idWidth\<rparr>,
                     \<lparr>Title = ''NAME'', Width = nameWidth\<rparr>,
                     \<lparr>Title = ''IMAGE'', Width = imageWidth\<rparr>,
                     \<lparr>Title = ''STATUS'', Width = statusWidth\<rparr>,
                     \<lparr>Title = ''PORTS'', Width = portsWidth\<rparr>];
          m1 = m\<lparr>table := SetColumns (table m) columns\<rparr>;
          tableHeight = max_int 10 (height m1 - 10);
          m2 = m1\<lparr>table := SetHeight (table m1) tableHeight\<rparr>
      in updateTable S m2)"

subsection \<open>The update function\<close>

text \<open>
  \<open>Update\<close> returns the new state and the command, \<open>None\<close> for \<open>nil\<close>. On the key \<open>/\<close>
  the source returns \<open>m, m.filter.Focus()\<close>; the state returned here has the focus set.
\<close>

fun Update :: "stdlib \<Rightarrow> widgets \<Rightarrow> model \<Rightarrow> msg \<Rightarrow> panic + (model \<times> cmd option)" where
  "Update S W m (WindowSizeMsg w h) =
     bindP (updateTableSize S (m\<lparr>width := w, height := h\<rparr>)) (\<lambda>m'. Inr (m', None))"
| "Update S W m (KeyMsg k) =
     (if filtering m then
        (if k = ''ctrl+c'' then Inr (m, Some Quit)
         else if k = ''esc'' then
           Inr (m\<lparr>filtering := False, filter_f := Blur (filter_f m)\<rparr>, None)
         else if k = ''enter'' then
           bindP (updateTable S (m\<lparr>filtering := False, filter_f := Blur (filter_f m)\<rparr>))
             (\<lambda>m'. Inr (m', None))
         else
           (case textinput_Update W k (filter_f m) of
              (f', c) \<Rightarrow> bindP (updateTable S (m\<lparr>filter_f := f'\<rparr>)) (\<lambda>m'. Inr (m', c))))
      else
        (if k = ''ctrl+c'' \<or> k = ''q'' then Inr (m, Some Quit)
         else if k = ''/'' then
           (case Focus (filter_f m) of
              (f', c) \<Rightarrow> Inr (m\<lparr>filtering := True, filter_f := f'\<rparr>, c))
         else if k = ''r'' then
           Inr (m\<lparr>statusMsg := ''Refreshing containers...'', loading := True\<rparr>, Some LoadCmd)
         else if k = ''s'' then
           bindP (getSelectedContainer S m) (\<lambda>sel.
             case sel of
               None \<Rightarrow> Inr (m, None)
             | Some container \<Rightarrow>
                 if State container = ''running'' then
                   Inr (m\<lparr>statusMsg := ''Container is already running''\<rparr>, None)
                 else
                   bindP (slice_to (ID container) 12) (\<lambda>id12.
                     Inr (m\<lparr>statusMsg := ''Starting container '' @ id12 @ ''...'',
                             loading := True\<rparr>,
                          Some (Batch [StartCmd (ID container), Tick 2 LoadCmd]))))
         else if k = ''x'' then
           bindP (getSelectedContainer S m) (\<lambda>sel.
             case sel of
               None \<Rightarrow> Inr (m, None)
             | Some container \<Rightarrow>
                 if State container \<noteq> ''running'' then
                   Inr (m\<lparr>statusMsg := ''Container is not running''\<rparr>, None)
                 else
                   bindP (slice_to (ID container) 12) (\<lambda>id12.
                     Inr (m\<lparr>statusMsg := ''Stopping container '' @ id12 @ ''...'',
                             loading := True\<rparr>,
                          Some (Batch [StopCmd (ID container), Tick 2 LoadCmd]))))
         else if k = ''d'' then
           bindP (getSelectedContainer S m) (\<lambda>sel.
             case sel of
               None \<Rightarrow> Inr (m, None)
             | Some container \<Rightarrow>
                 bindP (slice_to (ID container) 12) (\<lambda>id12.
                   Inr (m\<lparr>statusMsg := ''Deleting container '' @ id12 @ ''...'',
                           loading := True\<rparr>,
                        Some (Batch [DeleteCmd (ID container), Tick 2 LoadCmd]))))
         else
           Inr (m\<lparr>table := (table m)\<lparr>t_cursor := table_Update W k (table m)\<rparr>\<rparr>, None)))"
| "Update S W m (containersLoaded cs) =
     bindP (updateTable S (m\<lparr>containers := cs\<rparr>)) (\<lambda>m'.
       let m1 = m'\<lparr>loading := False\<rparr>;
           m2 = (if statusMsg m1 = ''Refreshing containers...'' then m1\<lparr>statusMsg := []\<rparr>
                 else m1)
       in Inr (m2, None))"
| "Update S W m (actionResult success message) =
     Inr (m\<lparr>loading := False, statusMsg := message\<rparr>, None)"
| "Update S W m (errMsg e) =
     Inr (m\<lparr>err := Some e, loading := False\<rparr>, Some Quit)"
| "Update S W m otherMsg = Inr (m, None)"

definition initialModel :: model where
  "initialModel =
     \<lparr>table = \<lparr>t_cols = [\<lparr>Title = ''ID'', Width = 14\<rparr>,
                         \<lparr>Title = ''NAME'', Width = 25\<rparr>,
                         \<lparr>Title = ''IMAGE'', Width = 30\<rparr>,
                         \<lparr>Title = ''STATUS'', Width = 16\<rparr>,
                         \<lparr>Title = ''PORTS'', Width = 25\<rparr>],
               t_rows = [], t_cursor = 0, t_height = 15, t_focus = True\<rparr>,
      containers = [],
      filter_f = \<lparr>ti_text = [], ti_focus = False,
                  Placeholder = ''Type to filter containers...'', CharLimit = 50\<rparr>,
      filtering = False,
      err = None,
      width = 100,
      height = 30,
      statusMsg = [],
      loading = False\<rparr>"

definition Init :: "cmd option" where
  "Init = Some (Batch [LoadCmd, Blink])"

section \<open>Invariants and examples used in the statements\<close>

text \<open>
  Every column of a layout the program installs is at least three characters wide, the
  room \<open>truncate\<close> needs for its dots.
\<close>

definition layout_ok :: "model \<Rightarrow> bool" where
  "layout_ok m = list_all (\<lambda>c. 3 \<le> Width c) (Columns (table m))"

text \<open>
  \<open>Join\<close> puts a separator between the pieces, as \<open>strings.Join\<close> does; it states
  what \<open>Split\<close> returns.
\<close>

fun Join :: "string list \<Rightarrow> char \<Rightarrow> string" where
  "Join [] sep = []"
| "Join [l] sep = l"
| "Join (l # l' # ls) sep = l @ sep # Join (l' # ls) sep"

text \<open>
  What the three library functions do on ASCII text: the case mappings change the 26
  letters, and \<open>TrimSpace\<close> removes the white space \<open>\t \n \v \f \r\<close> and the blank at
  both ends. \<open>ascii_stdlib\<close> stands for the library in the concrete instances below,
  which hold ASCII text only.
\<close>

definition toLowerByte :: "char \<Rightarrow> char" where
  "toLowerByte c =
     (case map_of (zip ''ABCDEFGHIJKLMNOPQRSTUVWXYZ'' ''abcdefghijklmnopqrstuvwxyz'') c of
        Some d \<Rightarrow> d
      | None \<Rightarrow> c)"

definition toUpperByte :: "char \<Rightarrow> char" where
  "toUpperByte c =
     (case map_of (zip ''abcdefghijklmnopqrstuvwxyz'' ''ABCDEFGHIJKLMNOPQRSTUVWXYZ'') c of
        Some d \<Rightarrow> d
      | None \<Rightarrow> c)"

definition isSpace :: "char \<Rightarrow> bool" where
  "isSpace c = (c \<in> set [CHR 0x09, CHR 0x0A, CHR 0x0B, CHR 0x0C, CHR 0x0D, CHR 0x20])"

definition ascii_stdlib :: stdlib where
  "ascii_stdlib =
     \<lparr>ToLower = map toLowerByte,
      ToUpper = map toUpperByte,
      TrimSpace = (\<lambda>s. rev (dropWhile isSpace (rev (dropWhile isSpace s))))\<rparr>"

text \<open>Records, a decoder and widgets for the concrete instances below.\<close>

definition nginx_record :: Container where
  "nginx_record = \<lparr>ID = ''abc123'', Image_c = ''nginx:latest'', Command = [], Created = [],
     Status = [], Ports = ''0.0.0.0:80->80/tcp'', Names = ''/web'', State = ''running''\<rparr>"

definition zero_Container :: Container where
  "zero_Container = \<lparr>ID = [], Image_c = [], Command = [], Created = [],
     Status = [], Ports = [], Names = [], State = []\<rparr>"

definition decode_braces :: "string \<Rightarrow> Container option" where
  "decode_braces line = (if line = ''{}'' then Some zero_Container else None)"

definition two_ports_record :: Container where
  "two_ports_record = \<lparr>ID = ''0123456789ab'', Image_c = ''nginx:latest'', Command = [],
     Created = [], Status = [], Ports = ''0.0.0.0:8080->80/tcp, 0.0.0.0:8443->443/tcp'',
     Names = ''/web'', State = ''running''\<rparr>"

definition short_id_record :: Container where
  "short_id_record = \<lparr>ID = ''abc'', Image_c = ''nginx:latest'', Command = [],
     Created = [], Status = [], Ports = [], Names = ''/web'', State = ''exited''\<rparr>"

definition idle_widgets :: widgets where
  "idle_widgets = \<lparr>table_Update = (\<lambda>k t. t_cursor t),
                    textinput_Update = (\<lambda>k f. (f, None))\<rparr>"

definition exited_record :: Container where
  "exited_record = \<lparr>ID = ''fedcba987654'', Image_c = ''redis:7'', Command = [],
     Created = [], Status = [], Ports = [], Names = ''/cache'', State = ''exited''\<rparr>"

definition short_id_running :: Container where
  "short_id_running = short_id_record\<lparr>State := ''running''\<rparr>"

text \<open>The state after the first listing \<open>cs\<close> has arrived in the initial state.\<close>

definition after_load :: "stdlib \<Rightarrow> widgets \<Rightarrow> Container list \<Rightarrow> model" where
  "after_load S W cs =
     (case Update S W initialModel (containersLoaded cs) of
        Inl e \<Rightarrow> initialModel
      | Inr (m, c) \<Rightarrow> m)"

section \<open>Panics and truncation\<close>

lemma bindP_Inr [simp]: "bindP (Inr v) f = f v"
  by (simp add: bindP_def)

lemma bindP_Inl [simp]: "bindP (Inl e) f = Inl e"
  by (simp add: bindP_def)

lemma truncate_short: "int (length s) \<le> n \<Longrightarrow> truncate s n = Inr s"
  by (simp add: truncate_def)

lemma truncate_long:
  assumes "n < int (length s)" "3 \<le> n"
  shows "truncate s n = Inr (take (nat (n - 3)) s @ ''...'')"
  using assms by (simp add: truncate_def slice_to_def)

lemma truncate_panic:
  assumes "n < int (length s)" "n < 3"
  shows "truncate s n = Inl SliceBoundsOutOfRange"
  using assms by (simp add: truncate_def slice_to_def)

text \<open>
  C4, as amended. \<open>truncate(s, n)\<close> returns \<open>s\<close> unchanged when \<open>len(s) \<le> n\<close>. When
  \<open>s\<close> is longer and \<open>n\<close> is at least 3 it returns exactly \<open>n\<close> characters ending in
  \<open>...\<close>: the first \<open>n - 3\<close> characters of \<open>s\<close> and the three dots. When \<open>s\<close> is longer
  and \<open>n\<close> is below 3 the slice \<open>s[:n-3]\<close> has a negative bound and the call panics.
\<close>

theorem truncate_spec:
  "(int (length s) \<le> n \<longrightarrow> truncate s n = Inr s) \<and>
   (n < int (length s) \<and> 3 \<le> n \<longrightarrow>
      (\<exists>r. truncate s n = Inr r \<and> int (length r) = n \<and> suffix ''...'' r \<and>
           r = take (nat (n - 3)) s @ ''...'')) \<and>
   (n < int (length s) \<and> n < 3 \<longrightarrow> truncate s n = Inl SliceBoundsOutOfRange)"
proof (intro conjI impI)
  assume "int (length s) \<le> n"
  then show "truncate s n = Inr s" by (rule truncate_short)
next
  assume a: "n < int (length s) \<and> 3 \<le> n"
  then have t: "truncate s n = Inr (take (nat (n - 3)) s @ ''...'')"
    by (simp add: truncate_long)
  have l: "int (length (take (nat (n - 3)) s @ ''...'')) = n"
    using a by (auto simp: min_def)
  have "suffix ''...'' (take (nat (n - 3)) s @ ''...'')"
    by (rule suffix_appendI) simp
  with t l show "\<exists>r. truncate s n = Inr r \<and> int (length r) = n \<and> suffix ''...'' r \<and>
           r = take (nat (n - 3)) s @ ''...''"
    by blast
next
  assume "n < int (length s) \<and> n < 3"
  then show "truncate s n = Inl SliceBoundsOutOfRange"
    by (simp add: truncate_panic)
qed

theorem truncate_spec_witness:
  "truncate ''abcdefghij'' 8 = Inr ''abcde...'' \<and> truncate ''abc'' 8 = Inr ''abc'' \<and>
   truncate ''abcd'' 1 = Inl SliceBoundsOutOfRange"
  using truncate_spec [of "''abcdefghij''" 8] truncate_spec [of "''abc''" 8]
    truncate_spec [of "''abcd''" 1]
  by simp

text \<open>
  C4 as stated fails for a limit below 3: \<open>truncate("abcd", 2)\<close> does not return two
  characters, it panics.
\<close>

theorem truncate_counterexample:
  "truncate ''abcd'' 2 = Inl SliceBoundsOutOfRange"
  by (simp add: truncate_def slice_to_def)

lemma truncate_total: "3 \<le> n \<Longrightarrow> \<exists>r. truncate s n = Inr r"
  by (cases "int (length s) \<le> n") (simp_all add: truncate_short truncate_long)

lemma formatPorts_total: "\<exists>r. formatPorts p = Inr r"
  by (simp add: formatPorts_def truncate_total)

lemma containerToRow_total:
  assumes "layout_ok m"
  shows "\<exists>r. containerToRow S m c = Inr r"
proof (cases "length (Columns (table m)) < 5")
  case True
  obtain a where a: "truncate (ID c) 14 = Inr a" using truncate_total [of 14] by auto
  obtain b where b: "truncate (TrimPrefix (Names c) ''/'') 25 = Inr b"
    using truncate_total [of 25] by auto
  obtain d where d: "truncate (Image_c c) 30 = Inr d" using truncate_total [of 30] by auto
  obtain p where p: "formatPorts (Ports c) = Inr p" using formatPorts_total by auto
  obtain e where e: "truncate p 25 = Inr e" using truncate_total [of 25] by auto
  show ?thesis using True a b d p e by (simp add: containerToRow_def Let_def)
next
  case False
  let ?cols = "Columns (table m)"
  have w: "\<And>i. i < 5 \<Longrightarrow> 3 \<le> Width (?cols ! i)"
    using assms False by (simp add: layout_ok_def list_all_length)
  obtain a where a: "truncate (ID c) (Width (?cols ! 0)) = Inr a"
    using truncate_total w [of 0] by fastforce
  obtain b where b: "truncate (TrimPrefix (Names c) ''/'') (Width (?cols ! 1)) = Inr b"
    using truncate_total w [of 1] by fastforce
  obtain d where d: "truncate (Image_c c) (Width (?cols ! 2)) = Inr d"
    using truncate_total w [of 2] by fastforce
  obtain p where p: "formatPorts (Ports c) = Inr p" using formatPorts_total by auto
  obtain e where e: "truncate p (Width (?cols ! 4)) = Inr e"
    using truncate_total w [of 4] by fastforce
  show ?thesis using False a b d p e by (simp add: containerToRow_def Let_def)
qed

lemma rowsLoop_total:
  assumes "layout_ok m"
  shows "\<exists>rows. rowsLoop S m cs = Inr rows \<and> length rows = length cs \<and>
           (\<forall>i < length cs. containerToRow S m (cs ! i) = Inr (rows ! i))"
proof (induction cs)
  case Nil
  then show ?case by simp
next
  case (Cons c cs)
  obtain r where r: "containerToRow S m c = Inr r"
    using containerToRow_total [OF assms] by blast
  obtain rs where rs: "rowsLoop S m cs = Inr rs" "length rs = length cs"
      "\<forall>i < length cs. containerToRow S m (cs ! i) = Inr (rs ! i)"
    using Cons.IH by blast
  have "\<forall>i < length (c # cs). containerToRow S m ((c # cs) ! i) = Inr ((r # rs) ! i)"
    using r rs by (auto simp: nth_Cons split: nat.splits)
  then show ?case using r rs by simp
qed

section \<open>The status word\<close>

text \<open>
  C5. \<open>formatStatus\<close> gives a result for every state string: each of the seven states it
  knows maps to its fixed label, rendered in the state's colour style, and every other
  string maps to its upper-cased form, \<open>strings.ToUpper\<close> of it.
\<close>

theorem formatStatus_table:
  "formatStatus S ''running'' = Render runningStyle ''RUNNING'' \<and>
   formatStatus S ''exited'' = Render stoppedStyle ''STOPPED'' \<and>
   formatStatus S ''paused'' = Render pausedStyle ''PAUSED'' \<and>
   formatStatus S ''restarting'' = Render pausedStyle ''RESTART'' \<and>
   formatStatus S ''removing'' = Render stoppedStyle ''REMOVING'' \<and>
   formatStatus S ''dead'' = Render stoppedStyle ''DEAD'' \<and>
   formatStatus S ''created'' = Render pausedStyle ''CREATED'' \<and>
   (state \<notin> set [''running'', ''exited'', ''paused'', ''restarting'', ''removing'',
                  ''dead'', ''created''] \<longrightarrow>
      formatStatus S state = Plain (ToUpper S state))"
  by (simp add: formatStatus_def)

theorem formatStatus_table_witness:
  "''unknown'' \<notin> set [''running'', ''exited'', ''paused'', ''restarting'', ''removing'',
                      ''dead'', ''created''] \<and>
   formatStatus ascii_stdlib ''unknown'' = Plain ''UNKNOWN''"
proof -
  have "ToUpper ascii_stdlib ''unknown'' = ''UNKNOWN''"
    by code_simp
  then show ?thesis
    using formatStatus_table [where S = ascii_stdlib and state = "''unknown''"]
    by simp
qed

section \<open>Layout\<close>

lemma max_int_max: "max_int a b = max a b"
  by (simp add: max_int_def max_def)

lemma sdiv_nonneg: "0 \<le> a \<Longrightarrow> a sdiv 3 = a div (3::int)"
  by (simp add: signed_divide_int_def sgn_if)

lemma updateTableSize_run:
  assumes "80 \<le> width m"
  shows "\<exists>rows. updateTableSize S m =
     Inr (m\<lparr>table := (table m)\<lparr>
            t_cols := [\<lparr>Title = ''ID'', Width = 14\<rparr>,
                       \<lparr>Title = ''NAME'', Width = max 20 ((width m - 40) div 3)\<rparr>,
                       \<lparr>Title = ''IMAGE'', Width = max 25 ((width m - 40) div 3)\<rparr>,
                       \<lparr>Title = ''STATUS'', Width = 16\<rparr>,
                       \<lparr>Title = ''PORTS'', Width = max 20 (width m - 40
                            - max 20 ((width m - 40) div 3) - max 25 ((width m - 40) div 3))\<rparr>],
            t_height := max 10 (height m - 10),
            t_rows := rows\<rparr>\<rparr>)"
proof -
  let ?cols = "[\<lparr>Title = ''ID'', Width = 14\<rparr>,
                \<lparr>Title = ''NAME'', Width = max 20 ((width m - 40) div 3)\<rparr>,
                \<lparr>Title = ''IMAGE'', Width = max 25 ((width m - 40) div 3)\<rparr>,
                \<lparr>Title = ''STATUS'', Width = 16\<rparr>,
                \<lparr>Title = ''PORTS'', Width = max 20 (width m - 40
                   - max 20 ((width m - 40) div 3) - max 25 ((width m - 40) div 3))\<rparr>]"
  let ?m2 = "m\<lparr>table := (table m)\<lparr>t_cols := ?cols, t_height := max 10 (height m - 10)\<rparr>\<rparr>"
  have sd: "(width m - 40) sdiv 3 = (width m - 40) div 3"
    using assms by (simp add: sdiv_nonneg)
  have step: "updateTableSize S m = updateTable S ?m2"
    using assms
    by (simp add: updateTableSize_def Let_def sd max_int_max SetColumns_def SetHeight_def)
  have ok: "layout_ok ?m2"
    by (simp add: layout_ok_def Columns_def le_max_iff_disj)
  obtain rows where
    "rowsLoop S ?m2 (filterContainers S (containers ?m2) (Value (filter_f ?m2))) = Inr rows"
    using rowsLoop_total [OF ok] by blast
  then have "updateTable S ?m2 = Inr (?m2\<lparr>table := SetRows (table ?m2) rows\<rparr>)"
    by (simp add: updateTable_def)
  with step show ?thesis
    by (auto simp: SetRows_def)
qed

text \<open>
  C1, as amended. For every terminal width \<open>w \<ge> 80\<close>, \<open>updateTableSize\<close> installs the
  column widths id = 14, status = 16, name = \<open>max(20, (w-40)/3)\<close>, image =
  \<open>max(25, (w-40)/3)\<close> and ports = \<open>max(20, (w-40) - name - image)\<close>; name, image and
  ports are at least 20, 25 and 20. Their sum plus the reserve of 10 is at most \<open>w\<close>
  exactly when \<open>w \<ge> 107\<close>, and is then equal to \<open>w\<close>: below 107 the minimum widths
  take more room than the terminal has.
\<close>

theorem updateTableSize_layout:
  assumes "80 \<le> width m"
  shows "\<exists>m' n i p. updateTableSize S m = Inr m' \<and> width m' = width m \<and>
     map Width (Columns (table m')) = [14, n, i, 16, p] \<and>
     n = max 20 ((width m - 40) div 3) \<and>
     i = max 25 ((width m - 40) div 3) \<and>
     p = max 20 (width m - 40 - n - i) \<and>
     20 \<le> n \<and> 25 \<le> i \<and> 20 \<le> p \<and>
     (14 + n + i + 16 + p + 10 \<le> width m \<longleftrightarrow> 107 \<le> width m) \<and>
     (107 \<le> width m \<longrightarrow> 14 + n + i + 16 + p + 10 = width m)"
proof -
  obtain rows where r: "updateTableSize S m =
     Inr (m\<lparr>table := (table m)\<lparr>
            t_cols := [\<lparr>Title = ''ID'', Width = 14\<rparr>,
                       \<lparr>Title = ''NAME'', Width = max 20 ((width m - 40) div 3)\<rparr>,
                       \<lparr>Title = ''IMAGE'', Width = max 25 ((width m - 40) div 3)\<rparr>,
                       \<lparr>Title = ''STATUS'', Width = 16\<rparr>,
                       \<lparr>Title = ''PORTS'', Width = max 20 (width m - 40
                            - max 20 ((width m - 40) div 3) - max 25 ((width m - 40) div 3))\<rparr>],
            t_height := max 10 (height m - 10),
            t_rows := rows\<rparr>\<rparr>)"
    using updateTableSize_run [OF assms] by blast
  define m' where "m' = projr (updateTableSize S m)"
  define n where "n = max 20 ((width m - 40) div 3)"
  define i where "i = max 25 ((width m - 40) div 3)"
  define p where "p = max 20 (width m - 40 - n - i)"
  have f0: "updateTableSize S m = Inr m'"
    by (simp add: m'_def r)
  have f1: "width m' = width m"
    by (simp add: m'_def r)
  have f2: "map Width (Columns (table m')) = [14, n, i, 16, p]"
    by (simp add: m'_def r Columns_def n_def i_def p_def)
  have a1: "20 \<le> n" "25 \<le> i" "20 \<le> p"
    by (simp_all add: n_def i_def p_def)
  have a2: "14 + n + i + 16 + p + 10 \<le> width m \<longleftrightarrow> 107 \<le> width m"
    using assms unfolding n_def i_def p_def by (simp add: max_def) presburger
  have a3: "107 \<le> width m \<longrightarrow> 14 + n + i + 16 + p + 10 = width m"
    unfolding n_def i_def p_def by (simp add: max_def) presburger
  show ?thesis
    apply (rule exI [of _ m'])
    apply (rule exI [of _ n])
    apply (rule exI [of _ i])
    apply (rule exI [of _ p])
    apply (intro conjI f0 f1 f2 a1 a2 a3 n_def i_def p_def)
    done
qed

theorem updateTableSize_layout_witness:
  "80 \<le> width (initialModel\<lparr>width := 120\<rparr>) \<and>
   map Width (Columns (table (projr (updateTableSize ascii_stdlib (initialModel\<lparr>width := 120\<rparr>)))))
     = [14, 26, 26, 16, 28]"
  using updateTableSize_layout [where S = ascii_stdlib and m = "initialModel\<lparr>width := 120\<rparr>"]
  by (auto simp: initialModel_def)

text \<open>
  C1 as stated fails at the width 80: the columns are 14, 20, 25, 16 and 20 wide, and
  with the reserve they take 105.
\<close>

theorem updateTableSize_counterexample:
  "(case updateTableSize ascii_stdlib (initialModel\<lparr>width := 80\<rparr>) of
      Inl e \<Rightarrow> False
    | Inr m' \<Rightarrow> width m' = 80 \<and>
        map Width (Columns (table m')) = [14, 20, 25, 16, 20] \<and>
        \<not> (sum_list (map Width (Columns (table m'))) + 10 \<le> width m'))"
  by (simp add: updateTableSize_def Let_def initialModel_def max_int_def
      signed_divide_int_def SetColumns_def SetHeight_def updateTable_def filterContainers_def
      Value_def SetRows_def Columns_def)

section \<open>Filtering\<close>

lemma Contains_sublist: "Contains s sub \<longleftrightarrow> sublist sub s"
  by (induction s) (auto simp: sublist_Cons_right)

lemma filterLoop_filter: "filterLoop S f cs = filter (matchesFilter S f) cs"
  by (induction cs) auto

lemma TrimPrefix_slash:
  "TrimPrefix s ''/'' = (if s \<noteq> [] \<and> hd s = CHR ''/'' then tl s else s)"
  by (cases s) (auto simp: TrimPrefix_def)

lemma matchesFilter_fields:
  "matchesFilter S f c \<longleftrightarrow>
     (\<exists>field \<in> set [if Names c \<noteq> [] \<and> hd (Names c) = CHR ''/'' then tl (Names c) else Names c,
                     Image_c c, State c, ID c, Ports c].
        sublist f (ToLower S field))"
  by (simp add: matchesFilter_def Let_def Contains_sublist TrimPrefix_slash)

text \<open>
  C2. For every list of records \<open>R\<close> and filter text \<open>F\<close>, \<open>filterContainers(R, F)\<close> is a
  subsequence of \<open>R\<close> in \<open>R\<close>'s order. For the empty \<open>F\<close> it is \<open>R\<close>. Otherwise it holds
  exactly the records for which one of the name without its leading \<open>/\<close>, the image, the
  state, the id and the ports, lower-cased by \<open>strings.ToLower\<close>, contains the
  lower-cased \<open>F\<close> as a contiguous substring.
\<close>

theorem filterContainers_spec:
  "subseq (filterContainers S R F) R \<and>
   (F = [] \<longrightarrow> filterContainers S R F = R) \<and>
   (F \<noteq> [] \<longrightarrow> filterContainers S R F =
      filter (\<lambda>c. \<exists>field \<in> set [if Names c \<noteq> [] \<and> hd (Names c) = CHR ''/''
                                     then tl (Names c) else Names c,
                                   Image_c c, State c, ID c, Ports c].
                     sublist (ToLower S F) (ToLower S field)) R)"
proof (intro conjI impI)
  show "subseq (filterContainers S R F) R"
    by (simp add: filterContainers_def filterLoop_filter)
next
  assume "F = []"
  then show "filterContainers S R F = R"
    by (simp add: filterContainers_def)
next
  assume "F \<noteq> []"
  then have "filterContainers S R F = filter (matchesFilter S (ToLower S F)) R"
    by (simp add: filterContainers_def filterLoop_filter)
  also have "\<dots> = filter (\<lambda>c. \<exists>field \<in> set [if Names c \<noteq> [] \<and> hd (Names c) = CHR ''/''
                                     then tl (Names c) else Names c,
                                   Image_c c, State c, ID c, Ports c].
                     sublist (ToLower S F) (ToLower S field)) R"
    by (rule filter_cong) (simp_all only: matchesFilter_fields)
  finally show "filterContainers S R F =
      filter (\<lambda>c. \<exists>field \<in> set [if Names c \<noteq> [] \<and> hd (Names c) = CHR ''/''
                                     then tl (Names c) else Names c,
                                   Image_c c, State c, ID c, Ports c].
                     sublist (ToLower S F) (ToLower S field)) R" .
qed

theorem filterContainers_spec_witness:
  "filterContainers ascii_stdlib [nginx_record] ''NGINX'' = [nginx_record] \<and>
   filterContainers ascii_stdlib [nginx_record] ''redis'' = [] \<and>
   filterContainers ascii_stdlib [nginx_record] [] = [nginx_record]"
proof -
  have "filterContainers ascii_stdlib [nginx_record] ''NGINX'' = [nginx_record]"
    by code_simp
  moreover have "filterContainers ascii_stdlib [nginx_record] ''redis'' = []"
    by code_simp
  ultimately show ?thesis
    using filterContainers_spec [where S = ascii_stdlib and R = "[nginx_record]" and F = "[]"]
      filterContainers_spec [where S = ascii_stdlib and R = "[nginx_record]" and F = "''NGINX''"]
    by simp
qed

section \<open>Parsing the listing\<close>

lemma Split_not_Nil: "Split s sep \<noteq> []"
  by (induction s) (auto split: list.splits)

lemma Join_Cons: "ls \<noteq> [] \<Longrightarrow> Join (l # ls) sep = l @ sep # Join ls sep"
  by (cases ls) auto

lemma Join_Split: "Join (Split s sep) sep = s"
proof (induction s)
  case Nil
  then show ?case by simp
next
  case (Cons c s)
  obtain l ls where sp: "Split s sep = l # ls"
    using Split_not_Nil [of s sep] by (cases "Split s sep") auto
  show ?case
  proof (cases "c = sep")
    case True
    then show ?thesis using Cons by (simp add: Join_Cons Split_not_Nil)
  next
    case False
    have "Join ((c # l) # ls) sep = c # Join (l # ls) sep"
      by (cases ls) auto
    then show ?thesis using False Cons sp by simp
  qed
qed

lemma Split_no_sep: "l \<in> set (Split s sep) \<Longrightarrow> sep \<notin> set l"
proof (induction s arbitrary: l)
  case Nil
  then show ?case by simp
next
  case (Cons c s)
  then show ?case
    by (cases "Split s sep") (auto split: if_splits)
qed

lemma decodeLines_map_filter:
  "decodeLines decode ls = List.map_filter decode (filter (\<lambda>l. l \<noteq> []) ls)"
  by (induction ls) (auto simp: List.map_filter_simps split: option.splits)

lemma length_map_filter:
  "length (List.map_filter f xs) = length (filter (\<lambda>x. f x \<noteq> None) xs)"
  by (induction xs) (auto simp: List.map_filter_simps split: option.splits)

text \<open>
  C6. For every output \<open>out\<close> of the listing command, the parser trims \<open>out\<close> with
  \<open>strings.TrimSpace\<close>, takes the pieces \<open>lines\<close> between the newlines of the trimmed
  text (the trimmed text is the pieces joined by newlines, and no piece holds a
  newline), skips the empty ones, decodes each of the others and drops those that do
  not decode; the records come in the order of their lines. So two lines that fail to
  decode and one that decodes give exactly one record.
\<close>

theorem loadContainers_parse:
  "\<exists>lines.
     Join lines (CHR 0x0A) = TrimSpace S out \<and>
     lines \<noteq> [] \<and> (\<forall>l \<in> set lines. CHR 0x0A \<notin> set l) \<and>
     loadContainers S decode (Inr out) =
       containersLoaded (List.map_filter decode (filter (\<lambda>l. l \<noteq> []) lines)) \<and>
     (length (filter (\<lambda>l. l \<noteq> [] \<and> decode l = None) lines) = 2 \<and>
      length (filter (\<lambda>l. l \<noteq> [] \<and> decode l \<noteq> None) lines) = 1 \<longrightarrow>
        (\<exists>c. loadContainers S decode (Inr out) = containersLoaded [c]))"
proof -
  define lines where "lines = Split (TrimSpace S out) (CHR 0x0A)"
  have g1: "Join lines (CHR 0x0A) = TrimSpace S out"
    by (simp add: lines_def Join_Split)
  have g3: "lines \<noteq> []"
    by (simp add: lines_def Split_not_Nil)
  have g4: "\<forall>l \<in> set lines. CHR 0x0A \<notin> set l"
    using Split_no_sep lines_def by blast
  have g5: "loadContainers S decode (Inr out) =
       containersLoaded (List.map_filter decode (filter (\<lambda>l. l \<noteq> []) lines))"
    by (simp add: loadContainers_def lines_def decodeLines_map_filter)
  have g6: "length (filter (\<lambda>l. l \<noteq> [] \<and> decode l = None) lines) = 2 \<and>
      length (filter (\<lambda>l. l \<noteq> [] \<and> decode l \<noteq> None) lines) = 1 \<longrightarrow>
        (\<exists>c. loadContainers S decode (Inr out) = containersLoaded [c])"
  proof
    assume "length (filter (\<lambda>l. l \<noteq> [] \<and> decode l = None) lines) = 2 \<and>
      length (filter (\<lambda>l. l \<noteq> [] \<and> decode l \<noteq> None) lines) = 1"
    then have "length (List.map_filter decode (filter (\<lambda>l. l \<noteq> []) lines)) = 1"
      by (simp add: length_map_filter conj_commute)
    then obtain c where "List.map_filter decode (filter (\<lambda>l. l \<noteq> []) lines) = [c]"
      by (cases "List.map_filter decode (filter (\<lambda>l. l \<noteq> []) lines)") auto
    with g5 show "\<exists>c. loadContainers S decode (Inr out) = containersLoaded [c]"
      by simp
  qed
  show ?thesis
    apply (rule exI [of _ lines])
    apply (intro conjI g1 g3 g4 g5 g6)
    done
qed

text \<open>
  An instance with white space at both ends. The decoder accepts the line \<open>{}\<close> only,
  so the one record is there because the blank before \<open>{}\<close> was trimmed: the lines of
  the untrimmed text give no record.
\<close>

theorem loadContainers_parse_witness:
  "TrimSpace ascii_stdlib '' {}\<newline>garbage\<newline>\<newline>not json\<newline>  \<newline>'' =
     ''{}\<newline>garbage\<newline>\<newline>not json'' \<and>
   loadContainers ascii_stdlib decode_braces
       (Inr '' {}\<newline>garbage\<newline>\<newline>not json\<newline>  \<newline>'') =
     containersLoaded [zero_Container] \<and>
   decodeLines decode_braces
       (Split '' {}\<newline>garbage\<newline>\<newline>not json\<newline>  \<newline>'' (CHR 0x0A)) = []"
proof -
  have "TrimSpace ascii_stdlib '' {}\<newline>garbage\<newline>\<newline>not json\<newline>  \<newline>'' =
     ''{}\<newline>garbage\<newline>\<newline>not json''"
    by code_simp
  moreover have "loadContainers ascii_stdlib decode_braces
       (Inr '' {}\<newline>garbage\<newline>\<newline>not json\<newline>  \<newline>'') =
     containersLoaded [zero_Container]"
    by code_simp
  moreover have "decodeLines decode_braces
       (Split '' {}\<newline>garbage\<newline>\<newline>not json\<newline>  \<newline>'' (CHR 0x0A)) = []"
    by code_simp
  ultimately show ?thesis
    using loadContainers_parse [where S = ascii_stdlib and decode = decode_braces
        and out = "'' {}\<newline>garbage\<newline>\<newline>not json\<newline>  \<newline>''"]
    by simp
qed

section \<open>The ports cell\<close>

lemma truncate_twice:
  assumes "3 \<le> w"
  shows "bindP (truncate s 25) (\<lambda>t. truncate t w) = truncate s (min 25 w)"
proof (cases "int (length s) \<le> 25")
  case True
  then show ?thesis
    by (cases "25 \<le> w") (simp_all add: truncate_short min_def truncate_def)
next
  case False
  then have l: "25 < int (length s)" by simp
  have t25: "truncate s 25 = Inr (take 22 s @ ''...'')"
    using l by (simp add: truncate_long)
  show ?thesis
  proof (cases "25 \<le> w")
    case True
    then have "truncate (take 22 s @ ''...'') w = Inr (take 22 s @ ''...'')"
      using l by (simp add: truncate_short)
    then show ?thesis using True t25 by (simp add: min_def)
  next
    case False
    then have w: "w < 25" by simp
    define n where "n = nat (w - 3)"
    have n: "n \<le> 22" using w by (simp add: n_def)
    have len: "22 < length s" using l by simp
    have tk: "take n (take 22 s @ ''...'') = take n s"
      using n len by simp
    have a: "truncate (take 22 s @ ''...'') w = Inr (take n (take 22 s @ ''...'') @ ''...'')"
      unfolding n_def
    proof (rule truncate_long)
      show "w < int (length (take 22 s @ ''...''))" using w len by simp
      show "3 \<le> w" by (rule assms)
    qed
    have c: "truncate s w = Inr (take n s @ ''...'')"
      unfolding n_def
    proof (rule truncate_long)
      show "w < int (length s)" using w l by simp
      show "3 \<le> w" by (rule assms)
    qed
    have m: "min 25 w = w" using w by simp
    show ?thesis
      by (simp only: t25 bindP_Inr a tk m c)
  qed
qed

lemma ports_cell:
  assumes "3 \<le> w"
  shows "bindP (formatPorts p) (\<lambda>t. truncate t w) =
     (if p = [] then Inr dash else truncate (ReplaceAll p ''0.0.0.0:'' []) (min 25 w))"
  using assms by (simp add: formatPorts_def truncate_twice truncate_short dash_def)

text \<open>
  C3 at a failing input. The terminal is 200 wide, so the ports column is 54 wide, and
  the record publishes two ports. Without the \<open>0.0.0.0:\<close> prefixes the ports string has
  27 characters and fits the column, yet the cell shows 22 of them and three dots:
  \<open>formatPorts\<close> has already cut the string to 25 before \<open>containerToRow\<close> truncates it
  to the column (\<open>ports_cell\<close> above: the cell is cut to the smaller of 25 and the
  column width).
\<close>

theorem ports_cell_wide_terminal:
  "(case updateTableSize ascii_stdlib (initialModel\<lparr>width := 200\<rparr>) of
      Inl e \<Rightarrow> False
    | Inr m \<Rightarrow>
        Width (Columns (table m) ! 4) = 54 \<and>
        containerToRow ascii_stdlib m two_ports_record =
          Inr [Plain ''0123456789ab'', Plain ''web'', Plain ''nginx:latest'',
               Render runningStyle ''RUNNING'', Plain ''8080->80/tcp, 8443->44...''] \<and>
        truncate (ReplaceAll (Ports two_ports_record) ''0.0.0.0:'' []) 54 =
          Inr ''8080->80/tcp, 8443->443/tcp'')"
  by (simp add: updateTableSize_def Let_def initialModel_def max_int_def
      signed_divide_int_def SetColumns_def SetHeight_def updateTable_def filterContainers_def
      Value_def SetRows_def Columns_def containerToRow_def two_ports_record_def
      TrimPrefix_def formatPorts_def truncate_def slice_to_def formatStatus_def)

section \<open>What an update keeps\<close>

text \<open>
  The initial layout is wide enough, every update keeps it so, and only an error message
  changes the stored error.
\<close>

lemma bindP_eq_Inr: "bindP x f = Inr y \<longleftrightarrow> (\<exists>v. x = Inr v \<and> f v = Inr y)"
  by (cases x) simp_all

lemma containerToRow_table:
  "table m1 = table m2 \<Longrightarrow> containerToRow S m1 c = containerToRow S m2 c"
  by (simp add: containerToRow_def)

lemma rowsLoop_table:
  "table m1 = table m2 \<Longrightarrow> rowsLoop S m1 cs = rowsLoop S m2 cs"
  by (induction cs) (simp_all add: containerToRow_table [of m1 m2])

lemma layout_ok_initialModel: "layout_ok initialModel"
  by (simp add: layout_ok_def initialModel_def Columns_def)

lemma updateTable_fields:
  assumes "updateTable S m = Inr m'"
  shows "\<exists>rows. m' = m\<lparr>table := (table m)\<lparr>t_rows := rows\<rparr>\<rparr>"
  using assms by (auto simp: updateTable_def bindP_eq_Inr SetRows_def)

lemma updateTableSize_clamp:
  "width m < 80 \<Longrightarrow> updateTableSize S m = updateTableSize S (m\<lparr>width := 80\<rparr>)"
  by (simp add: updateTableSize_def)

lemma updateTableSize_keeps:
  assumes "updateTableSize S m = Inr m'"
  shows "layout_ok m' \<and> err m' = err m"
proof -
  define m0 where "m0 = (if width m < 80 then m\<lparr>width := 80\<rparr> else m)"
  have w: "80 \<le> width m0" by (simp add: m0_def)
  have "updateTableSize S m = updateTableSize S m0"
    by (simp add: m0_def updateTableSize_clamp)
  with assms have "updateTableSize S m0 = Inr m'" by simp
  with updateTableSize_run [OF w, where S = S] have "layout_ok m' \<and> err m' = err m0"
    by (auto simp: layout_ok_def Columns_def le_max_iff_disj)
  then show ?thesis by (simp add: m0_def)
qed

lemma Update_key_fields:
  assumes "Update S W m (KeyMsg k) = Inr (m', c)"
  shows "Columns (table m') = Columns (table m) \<and> err m' = err m"
proof (cases "filtering m")
  case True
  then show ?thesis using assms
    by (auto simp: bindP_eq_Inr Columns_def split: if_splits prod.splits
        dest!: updateTable_fields)
next
  case False
  then show ?thesis using assms
    by (auto simp: bindP_eq_Inr Columns_def Focus_def split: if_splits option.splits)
qed

lemma Update_layout_ok:
  assumes "layout_ok m" "Update S W m msg = Inr (m', c)"
  shows "layout_ok m'"
proof (cases msg)
  case (WindowSizeMsg w h)
  then show ?thesis using assms(2)
    by (auto simp: bindP_eq_Inr dest: updateTableSize_keeps)
next
  case (KeyMsg k)
  then have "Columns (table m') = Columns (table m)"
    using assms(2) Update_key_fields by blast
  then show ?thesis using assms(1) by (simp add: layout_ok_def)
next
  case (containersLoaded cs)
  then show ?thesis using assms
    by (auto simp: bindP_eq_Inr layout_ok_def Columns_def Let_def split: if_splits
        dest!: updateTable_fields)
next
  case (actionResult s t)
  then show ?thesis using assms by (auto simp: layout_ok_def Columns_def)
next
  case (errMsg e)
  then show ?thesis using assms by (auto simp: layout_ok_def Columns_def)
next
  case otherMsg
  then show ?thesis using assms by auto
qed

lemma Update_err:
  assumes "Update S W m msg = Inr (m', c)" "err m' \<noteq> err m"
  shows "\<exists>e. msg = errMsg e"
proof (cases msg)
  case (WindowSizeMsg w h)
  then show ?thesis using assms
    by (auto simp: bindP_eq_Inr dest: updateTableSize_keeps)
next
  case (KeyMsg k)
  then show ?thesis using assms Update_key_fields by blast
next
  case (containersLoaded cs)
  then show ?thesis using assms
    by (auto simp: bindP_eq_Inr Let_def split: if_splits dest!: updateTable_fields)
next
  case (actionResult s t)
  then show ?thesis using assms by auto
next
  case (errMsg e)
  then show ?thesis by simp
next
  case otherMsg
  then show ?thesis using assms by auto
qed

section \<open>The listing arrives\<close>

lemma updateTable_loaded:
  assumes "layout_ok m"
  shows "\<exists>rows.
     rowsLoop S m (filterContainers S cs (Value (filter_f m))) = Inr rows \<and>
     length rows = length (filterContainers S cs (Value (filter_f m))) \<and>
     (\<forall>i < length rows.
        containerToRow S m (filterContainers S cs (Value (filter_f m)) ! i) = Inr (rows ! i)) \<and>
     updateTable S (m\<lparr>containers := cs\<rparr>) =
       Inr (m\<lparr>containers := cs, table := (table m)\<lparr>t_rows := rows\<rparr>\<rparr>)"
proof -
  let ?f = "filterContainers S cs (Value (filter_f m))"
  obtain rows where r: "rowsLoop S m ?f = Inr rows" "length rows = length ?f"
      "\<forall>i < length ?f. containerToRow S m (?f ! i) = Inr (rows ! i)"
    using rowsLoop_total [OF assms] by blast
  have "rowsLoop S (m\<lparr>containers := cs\<rparr>) ?f = rowsLoop S m ?f"
    by (rule rowsLoop_table) simp
  then have u: "updateTable S (m\<lparr>containers := cs\<rparr>) =
      Inr (m\<lparr>containers := cs, table := (table m)\<lparr>t_rows := rows\<rparr>\<rparr>)"
    using r(1) by (simp add: updateTable_def SetRows_def)
  have r3: "\<forall>i < length rows. containerToRow S m (?f ! i) = Inr (rows ! i)"
    using r(2) r(3) by simp
  show ?thesis
    apply (rule exI [of _ rows])
    apply (intro conjI r(1) r(2) r3 u)
    done
qed

text \<open>
  C8. In every state with a layout the program installs (\<open>layout_ok\<close>, which holds
  initially and after every update), a \<open>containersLoaded\<close> message replaces the records
  by the message's records, sets the table rows to the projection (\<open>containerToRow\<close>, in
  order) of the new records that pass the current filter text, clears the loading flag,
  and empties the status message if and only if it was exactly
  \<open>Refreshing containers...\<close>; nothing else in the state changes and no command is
  returned.
\<close>

theorem containersLoaded_update:
  assumes "layout_ok m"
  shows "\<exists>rows.
     rowsLoop S m (filterContainers S cs (Value (filter_f m))) = Inr rows \<and>
     length rows = length (filterContainers S cs (Value (filter_f m))) \<and>
     (\<forall>i < length rows.
        containerToRow S m (filterContainers S cs (Value (filter_f m)) ! i) = Inr (rows ! i)) \<and>
     Update S W m (containersLoaded cs) =
       Inr (m\<lparr>table := (table m)\<lparr>t_rows := rows\<rparr>,
              containers := cs,
              statusMsg := (if statusMsg m = ''Refreshing containers...'' then []
                            else statusMsg m),
              loading := False\<rparr>, None)"
proof -
  let ?f = "filterContainers S cs (Value (filter_f m))"
  obtain rows where r: "rowsLoop S m ?f = Inr rows" "length rows = length ?f"
      "\<forall>i < length rows. containerToRow S m (?f ! i) = Inr (rows ! i)"
      "updateTable S (m\<lparr>containers := cs\<rparr>) =
         Inr (m\<lparr>containers := cs, table := (table m)\<lparr>t_rows := rows\<rparr>\<rparr>)"
    using updateTable_loaded [OF assms] by blast
  have g: "Update S W m (containersLoaded cs) =
       Inr (m\<lparr>table := (table m)\<lparr>t_rows := rows\<rparr>,
              containers := cs,
              statusMsg := (if statusMsg m = ''Refreshing containers...'' then []
                            else statusMsg m),
              loading := False\<rparr>, None)"
    by (simp add: r(4) Let_def)
  show ?thesis
    apply (rule exI [of _ rows])
    apply (intro conjI r(1) r(2) r(3) g)
    done
qed

theorem containersLoaded_update_witness:
  "layout_ok (initialModel\<lparr>statusMsg := ''Refreshing containers...'', loading := True\<rparr>) \<and>
   Update ascii_stdlib idle_widgets
     (initialModel\<lparr>statusMsg := ''Refreshing containers...'', loading := True\<rparr>)
     (containersLoaded [nginx_record]) =
   Inr (initialModel\<lparr>
          table := (table initialModel)\<lparr>t_rows :=
            [[Plain ''abc123'', Plain ''web'', Plain ''nginx:latest'',
              Render runningStyle ''RUNNING'', Plain ''80->80/tcp'']]\<rparr>,
          containers := [nginx_record]\<rparr>, None)"
proof -
  let ?m = "initialModel\<lparr>statusMsg := ''Refreshing containers...'', loading := True\<rparr>"
  have ok: "layout_ok ?m"
    by (simp add: layout_ok_def initialModel_def Columns_def)
  have rows: "rowsLoop ascii_stdlib ?m (filterContainers ascii_stdlib [nginx_record] (Value (filter_f ?m))) =
      Inr [[Plain ''abc123'', Plain ''web'', Plain ''nginx:latest'',
            Render runningStyle ''RUNNING'', Plain ''80->80/tcp'']]"
    by code_simp
  from containersLoaded_update [where S = ascii_stdlib and W = idle_widgets and cs = "[nginx_record]", OF ok] rows ok
  show ?thesis
    by (auto simp: initialModel_def)
qed

section \<open>A fatal error\<close>

text \<open>
  C9, as amended. In every state, an \<open>errMsg\<close> stores the error, clears the loading flag
  and returns the quit command; an update that changes the stored error is the update
  of an \<open>errMsg\<close>, so it returns the quit command with the loading flag cleared; and no
  update removes a stored error. The update function itself never reads the stored
  error: a message that arrives once the error is set is handled as in any other state,
  so in browsing mode the key \<open>r\<close> sets the loading flag and returns the listing command
  whatever the stored error is. Ending the program on the quit command is left to the run
  time of the terminal library.
\<close>

theorem errMsg_update:
  "Update S W m (errMsg e) = Inr (m\<lparr>err := Some e, loading := False\<rparr>, Some Quit) \<and>
   (\<forall>msg m' c. Update S W m msg = Inr (m', c) \<and> err m' \<noteq> err m \<longrightarrow>
      (\<exists>e'. msg = errMsg e') \<and> c = Some Quit \<and> \<not> loading m') \<and>
   (\<forall>msg m' c. Update S W m msg = Inr (m', c) \<and> err m \<noteq> None \<longrightarrow> err m' \<noteq> None) \<and>
   (\<forall>x. \<not> filtering m \<longrightarrow>
      Update S W (m\<lparr>err := x\<rparr>) (KeyMsg ''r'') =
        Inr (m\<lparr>err := x, statusMsg := ''Refreshing containers...'', loading := True\<rparr>,
             Some LoadCmd))"
proof (intro conjI allI impI)
  fix msg m' c
  assume b: "Update S W m msg = Inr (m', c) \<and> err m \<noteq> None"
  show "err m' \<noteq> None"
  proof (cases "err m' = err m")
    case True
    then show ?thesis using b by simp
  next
    case False
    then obtain e' where "msg = errMsg e'" using b Update_err by blast
    then show ?thesis using b by auto
  qed
next
  show "Update S W m (errMsg e) = Inr (m\<lparr>err := Some e, loading := False\<rparr>, Some Quit)"
    by simp
next
  fix msg m' c
  assume a: "Update S W m msg = Inr (m', c) \<and> err m' \<noteq> err m"
  then obtain e' where e': "msg = errMsg e'" using Update_err by blast
  then show "\<exists>e'. msg = errMsg e'" by blast
  show "c = Some Quit" using a e' by auto
  show "\<not> loading m'" using a e' by auto
next
  fix x
  assume "\<not> filtering m"
  then show "Update S W (m\<lparr>err := x\<rparr>) (KeyMsg ''r'') =
        Inr (m\<lparr>err := x, statusMsg := ''Refreshing containers...'', loading := True\<rparr>,
             Some LoadCmd)"
    by simp
qed

theorem errMsg_update_witness:
  "Update ascii_stdlib idle_widgets initialModel (errMsg ''exit status 1'') =
     Inr (initialModel\<lparr>err := Some ''exit status 1'', loading := False\<rparr>, Some Quit) \<and>
   err (initialModel\<lparr>err := Some ''exit status 1'', loading := False\<rparr>) \<noteq> err initialModel \<and>
   \<not> filtering initialModel \<and>
   Update ascii_stdlib idle_widgets (initialModel\<lparr>err := None\<rparr>) (KeyMsg ''r'') =
     Inr (initialModel\<lparr>err := None, statusMsg := ''Refreshing containers...'',
            loading := True\<rparr>, Some LoadCmd) \<and>
   err (initialModel\<lparr>err := Some ''exit status 1''\<rparr>) \<noteq> None \<and>
   Update ascii_stdlib idle_widgets (initialModel\<lparr>err := Some ''exit status 1''\<rparr>)
       (actionResult True ''done'') =
     Inr (initialModel\<lparr>err := Some ''exit status 1'', loading := False,
            statusMsg := ''done''\<rparr>, None)"
  using errMsg_update [where S = ascii_stdlib and W = idle_widgets and m = initialModel
      and e = "''exit status 1''"]
    errMsg_update [where S = ascii_stdlib and W = idle_widgets
      and m = "initialModel\<lparr>err := Some ''exit status 1''\<rparr>"]
  by (simp add: initialModel_def)

text \<open>
  C9 as stated fails: a transition does occur after the error is set. In the state that
  the \<open>errMsg\<close> leaves, the key \<open>r\<close> is handled: the update sets the status message and the
  loading flag and returns the listing command, with the error still stored.
\<close>

theorem errMsg_update_counterexample:
  "Update ascii_stdlib idle_widgets initialModel (errMsg ''exit status 1'') =
     Inr (initialModel\<lparr>err := Some ''exit status 1'', loading := False\<rparr>, Some Quit) \<and>
   Update ascii_stdlib idle_widgets
       (initialModel\<lparr>err := Some ''exit status 1'', loading := False\<rparr>) (KeyMsg ''r'') =
     Inr (initialModel\<lparr>err := Some ''exit status 1'',
            statusMsg := ''Refreshing containers...'', loading := True\<rparr>, Some LoadCmd)"
  by (simp add: initialModel_def)

section \<open>The keys that act on the selected container\<close>

lemma key_s:
  assumes "\<not> filtering m" "getSelectedContainer S m = Inr (Some c)"
  shows "Update S W m (KeyMsg ''s'') =
     (if State c = ''running'' then
        Inr (m\<lparr>statusMsg := ''Container is already running''\<rparr>, None)
      else if length (ID c) < 12 then Inl SliceBoundsOutOfRange
      else Inr (m\<lparr>statusMsg := ''Starting container '' @ take 12 (ID c) @ ''...'',
                    loading := True\<rparr>,
                Some (Batch [StartCmd (ID c), Tick 2 LoadCmd])))"
  using assms by (simp add: slice_to_def)

lemma key_x:
  assumes "\<not> filtering m" "getSelectedContainer S m = Inr (Some c)"
  shows "Update S W m (KeyMsg ''x'') =
     (if State c \<noteq> ''running'' then
        Inr (m\<lparr>statusMsg := ''Container is not running''\<rparr>, None)
      else if length (ID c) < 12 then Inl SliceBoundsOutOfRange
      else Inr (m\<lparr>statusMsg := ''Stopping container '' @ take 12 (ID c) @ ''...'',
                    loading := True\<rparr>,
                Some (Batch [StopCmd (ID c), Tick 2 LoadCmd])))"
  using assms by (simp add: slice_to_def)

lemma key_d:
  assumes "\<not> filtering m" "getSelectedContainer S m = Inr (Some c)"
  shows "Update S W m (KeyMsg ''d'') =
     (if length (ID c) < 12 then Inl SliceBoundsOutOfRange
      else Inr (m\<lparr>statusMsg := ''Deleting container '' @ take 12 (ID c) @ ''...'',
                    loading := True\<rparr>,
                Some (Batch [DeleteCmd (ID c), Tick 2 LoadCmd])))"
  using assms by (simp add: slice_to_def)

lemma after_load_eq:
  "\<exists>rows. after_load S W cs =
     initialModel\<lparr>table := (table initialModel)\<lparr>t_rows := rows\<rparr>, containers := cs\<rparr>"
proof -
  obtain rows where "updateTable S (initialModel\<lparr>containers := cs\<rparr>) =
       Inr (initialModel\<lparr>containers := cs, table := (table initialModel)\<lparr>t_rows := rows\<rparr>\<rparr>)"
    using updateTable_loaded [OF layout_ok_initialModel] by blast
  then have "after_load S W cs =
     initialModel\<lparr>table := (table initialModel)\<lparr>t_rows := rows\<rparr>, containers := cs\<rparr>"
    by (simp add: after_load_def initialModel_def Let_def)
  then show ?thesis by blast
qed

lemma after_load_selected:
  "\<not> filtering (after_load S W [c]) \<and> getSelectedContainer S (after_load S W [c]) = Inr (Some c)"
proof -
  obtain rows where "after_load S W [c] =
     initialModel\<lparr>table := (table initialModel)\<lparr>t_rows := rows\<rparr>, containers := [c]\<rparr>"
    using after_load_eq by blast
  then show ?thesis
    by (simp add: getSelectedContainer_def filterContainers_def Value_def Cursor_def
        initialModel_def)
qed

lemma after_load_step:
  "Update S W initialModel (containersLoaded cs) = Inr (after_load S W cs, None)"
proof -
  obtain rows where "updateTable S (initialModel\<lparr>containers := cs\<rparr>) =
       Inr (initialModel\<lparr>containers := cs, table := (table initialModel)\<lparr>t_rows := rows\<rparr>\<rparr>)"
    using updateTable_loaded [OF layout_ok_initialModel] by blast
  then show ?thesis
    by (simp add: after_load_def Let_def)
qed

lemma action_panics:
  "(isl (startContainer containerID None) \<longleftrightarrow> length containerID < 12) \<and>
   (isl (stopContainer containerID None) \<longleftrightarrow> length containerID < 12) \<and>
   (isl (deleteContainer containerID r None) \<longleftrightarrow> length containerID < 12)"
  by (simp add: startContainer_def stopContainer_def deleteContainer_def slice_to_def)

text \<open>
  C7, as amended. In browsing mode with a container selected, the key \<open>s\<close> on a container
  whose state is \<open>running\<close> sets the status message to \<open>Container is already running\<close>,
  changes nothing else (the loading flag stays) and returns no command. On a container
  whose state is not \<open>running\<close> and whose ID has at least 12 bytes it sets the status
  \<open>Starting container <the first 12 bytes of the ID>...\<close>, sets the loading flag, and
  returns the batch of the start command for the ID and the refresh delayed by 2
  seconds. With a state other than \<open>running\<close> and an ID shorter than 12 bytes the slice
  \<open>ID[:12]\<close> panics.
\<close>

theorem start_key:
  assumes "\<not> filtering m" "getSelectedContainer S m = Inr (Some c)"
  shows "(State c = ''running'' \<longrightarrow>
            Update S W m (KeyMsg ''s'') =
              Inr (m\<lparr>statusMsg := ''Container is already running''\<rparr>, None)) \<and>
         (State c \<noteq> ''running'' \<and> 12 \<le> length (ID c) \<longrightarrow>
            Update S W m (KeyMsg ''s'') =
              Inr (m\<lparr>statusMsg := ''Starting container '' @ take 12 (ID c) @ ''...'',
                      loading := True\<rparr>,
                   Some (Batch [StartCmd (ID c), Tick 2 LoadCmd]))) \<and>
         (State c \<noteq> ''running'' \<and> length (ID c) < 12 \<longrightarrow>
            Update S W m (KeyMsg ''s'') = Inl SliceBoundsOutOfRange)"
  unfolding key_s [OF assms] by simp

theorem start_key_witness:
  "\<not> filtering (after_load ascii_stdlib idle_widgets [two_ports_record]) \<and>
   getSelectedContainer ascii_stdlib (after_load ascii_stdlib idle_widgets [two_ports_record]) =
     Inr (Some two_ports_record) \<and>
   \<not> filtering (after_load ascii_stdlib idle_widgets [exited_record]) \<and>
   getSelectedContainer ascii_stdlib (after_load ascii_stdlib idle_widgets [exited_record]) =
     Inr (Some exited_record) \<and>
   Update ascii_stdlib idle_widgets (after_load ascii_stdlib idle_widgets [two_ports_record]) (KeyMsg ''s'') =
     Inr ((after_load ascii_stdlib idle_widgets [two_ports_record])
            \<lparr>statusMsg := ''Container is already running''\<rparr>, None) \<and>
   Update ascii_stdlib idle_widgets (after_load ascii_stdlib idle_widgets [exited_record]) (KeyMsg ''s'') =
     Inr ((after_load ascii_stdlib idle_widgets [exited_record])
            \<lparr>statusMsg := ''Starting container fedcba987654...'', loading := True\<rparr>,
          Some (Batch [StartCmd ''fedcba987654'', Tick 2 LoadCmd]))"
proof -
  have a: "\<not> filtering (after_load ascii_stdlib idle_widgets [two_ports_record])"
       "getSelectedContainer ascii_stdlib (after_load ascii_stdlib idle_widgets [two_ports_record]) =
          Inr (Some two_ports_record)"
    using after_load_selected by blast+
  have b: "\<not> filtering (after_load ascii_stdlib idle_widgets [exited_record])"
       "getSelectedContainer ascii_stdlib (after_load ascii_stdlib idle_widgets [exited_record]) =
          Inr (Some exited_record)"
    using after_load_selected by blast+
  from start_key [OF a, of idle_widgets] start_key [OF b, of idle_widgets] a b
  show ?thesis
    by (simp add: two_ports_record_def exited_record_def)
qed

text \<open>
  C7 as stated fails on a selected container that is not running and has a short ID:
  after the listing with the one record of ID \<open>abc\<close> has arrived, the key \<open>s\<close> sets no
  status and returns no command, it panics.
\<close>

theorem start_key_counterexample:
  "Update ascii_stdlib idle_widgets initialModel (containersLoaded [short_id_record]) =
     Inr (after_load ascii_stdlib idle_widgets [short_id_record], None) \<and>
   \<not> filtering (after_load ascii_stdlib idle_widgets [short_id_record]) \<and>
   getSelectedContainer ascii_stdlib (after_load ascii_stdlib idle_widgets [short_id_record]) =
     Inr (Some short_id_record) \<and>
   State short_id_record \<noteq> ''running'' \<and>
   Update ascii_stdlib idle_widgets (after_load ascii_stdlib idle_widgets [short_id_record]) (KeyMsg ''s'') =
     Inl SliceBoundsOutOfRange"
  by code_simp

text \<open>
  C10. The handlers of the keys \<open>s\<close>, \<open>x\<close> and \<open>d\<close> and the result messages of the three
  actions slice the ID as \<open>ID[:12]\<close> with no check of its length. With a container
  selected in browsing mode, \<open>d\<close> panics exactly when the ID is shorter than 12 bytes,
  \<open>s\<close> exactly when moreover the state is not \<open>running\<close>, and \<open>x\<close> exactly when moreover
  the state is \<open>running\<close>; a successful start, stop or delete panics exactly when the ID is
  shorter than 12 bytes. Such states are reached: after a first listing with one record
  of ID \<open>abc\<close>, that record is selected and \<open>s\<close> and \<open>d\<close> panic (\<open>x\<close> when the record is
  running).
\<close>

theorem id_slice_panics:
  "(\<forall>m c. \<not> filtering m \<and> getSelectedContainer S m = Inr (Some c) \<longrightarrow>
      (isl (Update S W m (KeyMsg ''d'')) \<longleftrightarrow> length (ID c) < 12) \<and>
      (isl (Update S W m (KeyMsg ''s'')) \<longleftrightarrow> State c \<noteq> ''running'' \<and> length (ID c) < 12) \<and>
      (isl (Update S W m (KeyMsg ''x'')) \<longleftrightarrow> State c = ''running'' \<and> length (ID c) < 12)) \<and>
   (\<forall>containerID r.
      (isl (startContainer containerID None) \<longleftrightarrow> length containerID < 12) \<and>
      (isl (stopContainer containerID None) \<longleftrightarrow> length containerID < 12) \<and>
      (isl (deleteContainer containerID r None) \<longleftrightarrow> length containerID < 12)) \<and>
   Update S W initialModel (containersLoaded [short_id_record]) =
     Inr (after_load S W [short_id_record], None) \<and>
   getSelectedContainer S (after_load S W [short_id_record]) = Inr (Some short_id_record) \<and>
   Update S W (after_load S W [short_id_record]) (KeyMsg ''s'') = Inl SliceBoundsOutOfRange \<and>
   Update S W (after_load S W [short_id_record]) (KeyMsg ''d'') = Inl SliceBoundsOutOfRange \<and>
   Update S W initialModel (containersLoaded [short_id_running]) =
     Inr (after_load S W [short_id_running], None) \<and>
   getSelectedContainer S (after_load S W [short_id_running]) = Inr (Some short_id_running) \<and>
   Update S W (after_load S W [short_id_running]) (KeyMsg ''x'') = Inl SliceBoundsOutOfRange"
proof (intro conjI allI impI)
  fix m c
  assume a: "\<not> filtering m \<and> getSelectedContainer S m = Inr (Some c)"
  then have f: "\<not> filtering m" and g: "getSelectedContainer S m = Inr (Some c)"
    by simp_all
  show "isl (Update S W m (KeyMsg ''d'')) \<longleftrightarrow> length (ID c) < 12"
    unfolding key_d [OF f g] by simp
  show "isl (Update S W m (KeyMsg ''s'')) \<longleftrightarrow> State c \<noteq> ''running'' \<and> length (ID c) < 12"
    unfolding key_s [OF f g] by simp
  show "isl (Update S W m (KeyMsg ''x'')) \<longleftrightarrow> State c = ''running'' \<and> length (ID c) < 12"
    unfolding key_x [OF f g] by simp
next
  fix containerID r
  show "isl (startContainer containerID None) \<longleftrightarrow> length containerID < 12"
    by (simp add: action_panics)
  show "isl (stopContainer containerID None) \<longleftrightarrow> length containerID < 12"
    by (simp add: action_panics)
  show "isl (deleteContainer containerID r None) \<longleftrightarrow> length containerID < 12"
    by (simp add: action_panics)
next
  show "Update S W initialModel (containersLoaded [short_id_record]) =
     Inr (after_load S W [short_id_record], None)"
    by (rule after_load_step)
  show "Update S W initialModel (containersLoaded [short_id_running]) =
     Inr (after_load S W [short_id_running], None)"
    by (rule after_load_step)
next
  have s: "\<not> filtering (after_load S W [short_id_record])"
    "getSelectedContainer S (after_load S W [short_id_record]) = Inr (Some short_id_record)"
    using after_load_selected by blast+
  show "getSelectedContainer S (after_load S W [short_id_record]) = Inr (Some short_id_record)"
    by (rule s(2))
  show "Update S W (after_load S W [short_id_record]) (KeyMsg ''s'') = Inl SliceBoundsOutOfRange"
    unfolding key_s [OF s] by (simp add: short_id_record_def)
  show "Update S W (after_load S W [short_id_record]) (KeyMsg ''d'') = Inl SliceBoundsOutOfRange"
    unfolding key_d [OF s] by (simp add: short_id_record_def)
next
  have s: "\<not> filtering (after_load S W [short_id_running])"
    "getSelectedContainer S (after_load S W [short_id_running]) = Inr (Some short_id_running)"
    using after_load_selected by blast+
  show "getSelectedContainer S (after_load S W [short_id_running]) = Inr (Some short_id_running)"
    by (rule s(2))
  show "Update S W (after_load S W [short_id_running]) (KeyMsg ''x'') = Inl SliceBoundsOutOfRange"
    unfolding key_x [OF s] by (simp add: short_id_running_def short_id_record_def)
qed

theorem id_slice_panics_witness:
  "\<not> filtering (after_load ascii_stdlib idle_widgets [short_id_record]) \<and>
   getSelectedContainer ascii_stdlib (after_load ascii_stdlib idle_widgets [short_id_record]) =
     Inr (Some short_id_record) \<and>
   length (ID short_id_record) < 12 \<and>
   isl (Update ascii_stdlib idle_widgets (after_load ascii_stdlib idle_widgets [short_id_record]) (KeyMsg ''d'')) \<and>
   isl (Update ascii_stdlib idle_widgets (after_load ascii_stdlib idle_widgets [short_id_record]) (KeyMsg ''s'')) \<and>
   \<not> isl (Update ascii_stdlib idle_widgets (after_load ascii_stdlib idle_widgets [short_id_record]) (KeyMsg ''x'')) \<and>
   \<not> isl (Update ascii_stdlib idle_widgets (after_load ascii_stdlib idle_widgets [exited_record]) (KeyMsg ''d''))"
proof -
  have a: "\<not> filtering (after_load ascii_stdlib idle_widgets [short_id_record]) \<and>
       getSelectedContainer ascii_stdlib (after_load ascii_stdlib idle_widgets [short_id_record]) =
          Inr (Some short_id_record)"
    using after_load_selected by blast
  have b: "\<not> filtering (after_load ascii_stdlib idle_widgets [exited_record]) \<and>
       getSelectedContainer ascii_stdlib (after_load ascii_stdlib idle_widgets [exited_record]) =
          Inr (Some exited_record)"
    using after_load_selected by blast
  have l: "length (ID short_id_record) < 12" "State short_id_record \<noteq> ''running''"
      "\<not> length (ID exited_record) < 12"
    by (simp_all add: short_id_record_def exited_record_def)
  note t = id_slice_panics [where S = ascii_stdlib and W = idle_widgets, THEN conjunct1, rule_format]
  from t [OF a] t [OF b] a l show ?thesis
    by simp
qed

end
